theory Spec2Isabelle
  imports Main
begin

section \<open>The JavaScript runtime the client runs on\<close>

text \<open>
  \<^verbatim>\<open>src/arr-client.ts\<close> is a thin REST client. Everything it does goes through four
  services of its runtime: string templates, \<^verbatim>\<open>JSON.stringify\<close>, \<^verbatim>\<open>URLSearchParams\<close> /
  \<^verbatim>\<open>encodeURIComponent\<close>, and \<^verbatim>\<open>fetch\<close>. This section models the first three as executable
  functions and the last one, together with \<^verbatim>\<open>JSON.parse\<close>, as parameters of the model.

  Strings are byte strings: a \<^typ>\<open>string\<close> stands for the UTF-8 encoding of the JavaScript
  string. Numbers are integers: every number the client handles is an identifier or an
  HTTP status code.
\<close>

subsection \<open>Values and objects\<close>

datatype jsval =
    JUndefined
  | JNull
  | JBool bool
  | JNum int
  | JStr string
  | JArr "jsval list"
  | JObj "(string \<times> jsval) list"

text \<open>
  An object is the list of its own properties in insertion order. Writing a property
  that exists keeps its place and replaces its value; writing a new one appends it.
\<close>

type_synonym 'v js_object = "(string \<times> 'v) list"

fun set_prop :: "string \<Rightarrow> 'v \<Rightarrow> 'v js_object \<Rightarrow> 'v js_object" where
  "set_prop k v [] = [(k, v)]"
| "set_prop k v ((k', v') # ps) =
     (if k' = k then (k, v) # ps else (k', v') # set_prop k v ps)"

text \<open>The spread \<^verbatim>\<open>{...target, ...src}\<close>: the properties of \<open>src\<close> are written in order.\<close>

fun spread :: "'v js_object \<Rightarrow> 'v js_object \<Rightarrow> 'v js_object" where
  "spread target [] = target"
| "spread target ((k, v) # ps) = spread (set_prop k v target) ps"

text \<open>Reading a property: \<^verbatim>\<open>obj.k\<close> is \<^verbatim>\<open>undefined\<close> when the object has no such property.\<close>

definition get_prop :: "jsval js_object \<Rightarrow> string \<Rightarrow> jsval" where
  "get_prop obj k = (case map_of obj k of None \<Rightarrow> JUndefined | Some v \<Rightarrow> v)"

text \<open>The operator \<^verbatim>\<open>a ?? b\<close>.\<close>

definition nullish :: "jsval \<Rightarrow> jsval \<Rightarrow> jsval" where
  "nullish a b = (if a = JUndefined \<or> a = JNull then b else a)"

subsection \<open>Numbers in string templates\<close>

fun string_of_nat :: "nat \<Rightarrow> string" where
  "string_of_nat n =
     (if n < 10 then [char_of (48 + n)]
      else string_of_nat (n div 10) @ [char_of (48 + n mod 10)])"

declare string_of_nat.simps [simp del]

definition string_of_int :: "int \<Rightarrow> string" where
  "string_of_int i =
     (if i < 0 then CHR ''-'' # string_of_nat (nat (- i)) else string_of_nat (nat i))"

subsection \<open>\<^verbatim>\<open>JSON.stringify\<close>\<close>

fun join :: "string \<Rightarrow> string list \<Rightarrow> string" where
  "join sep [] = []"
| "join sep [x] = x"
| "join sep (x # y # ys) = x @ sep @ join sep (y # ys)"

definition hex_lower :: "nat \<Rightarrow> char" where
  "hex_lower d = (if d < 10 then char_of (48 + d) else char_of (87 + d))"

definition hex_upper :: "nat \<Rightarrow> char" where
  "hex_upper d = (if d < 10 then char_of (48 + d) else char_of (55 + d))"

text \<open>\<^verbatim>\<open>QuoteJSONString\<close> of ECMA-262, on one byte and on a string.\<close>

definition quote_char :: "char \<Rightarrow> string" where
  "quote_char c =
     (let n = (of_char c :: nat) in
      if n = 34 then [CHR 0x5C, CHR 0x22]
      else if n = 92 then [CHR 0x5C, CHR 0x5C]
      else if n = 8 then [CHR 0x5C, CHR ''b'']
      else if n = 12 then [CHR 0x5C, CHR ''f'']
      else if n = 10 then [CHR 0x5C, CHR ''n'']
      else if n = 13 then [CHR 0x5C, CHR ''r'']
      else if n = 9 then [CHR 0x5C, CHR ''t'']
      else if n < 32 then [CHR 0x5C, CHR ''u'', CHR ''0'', CHR ''0'', hex_lower (n div 16), hex_lower (n mod 16)]
      else [c])"

definition quote :: "string \<Rightarrow> string" where
  "quote s = CHR 0x22 # concat (map quote_char s) @ [CHR 0x22]"

text \<open>
  \<^verbatim>\<open>SerializeJSONProperty\<close>: \<open>None\<close> is the result \<^verbatim>\<open>undefined\<close>. An array writes
  \<^verbatim>\<open>null\<close> for such an element, an object leaves such a property out.
\<close>

fun JSON_stringify :: "jsval \<Rightarrow> string option"
  and stringify_elems :: "jsval list \<Rightarrow> string list"
  and stringify_props :: "(string \<times> jsval) list \<Rightarrow> string list" where
  "JSON_stringify JUndefined = None"
| "JSON_stringify JNull = Some ''null''"
| "JSON_stringify (JBool b) = Some (if b then ''true'' else ''false'')"
| "JSON_stringify (JNum n) = Some (string_of_int n)"
| "JSON_stringify (JStr s) = Some (quote s)"
| "JSON_stringify (JArr xs) = Some (''['' @ join '','' (stringify_elems xs) @ '']'')"
| "JSON_stringify (JObj ps) = Some (''{'' @ join '','' (stringify_props ps) @ ''}'')"
| "stringify_elems [] = []"
| "stringify_elems (x # xs) =
     (case JSON_stringify x of None \<Rightarrow> ''null'' | Some s \<Rightarrow> s) # stringify_elems xs"
| "stringify_props [] = []"
| "stringify_props ((k, v) # ps) =
     (case JSON_stringify v of None \<Rightarrow> stringify_props ps
      | Some s \<Rightarrow> (quote k @ '':'' @ s) # stringify_props ps)"

subsection \<open>Percent-encoding: \<^verbatim>\<open>encodeURIComponent\<close> and \<^verbatim>\<open>URLSearchParams\<close>\<close>

definition is_alnum :: "char \<Rightarrow> bool" where
  "is_alnum c =
     (let n = (of_char c :: nat) in
      (48 \<le> n \<and> n \<le> 57) \<or> (65 \<le> n \<and> n \<le> 90) \<or> (97 \<le> n \<and> n \<le> 122))"

definition percent_byte :: "char \<Rightarrow> string" where
  "percent_byte c =
     (let n = (of_char c :: nat) in [CHR ''%'', hex_upper (n div 16), hex_upper (n mod 16)])"

text \<open>\<^verbatim>\<open>encodeURIComponent\<close> leaves letters, digits and \<^verbatim>\<open>-_.!~*'()\<close> as they are.\<close>

definition uri_unreserved :: "char \<Rightarrow> bool" where
  "uri_unreserved c = (is_alnum c \<or> c \<in> set ''-_.!~*'' \<or> c = CHR 0x27 \<or> c \<in> set ''()'')"

definition encodeURIComponent :: "string \<Rightarrow> string" where
  "encodeURIComponent s =
     concat (map (\<lambda>c. if uri_unreserved c then [c] else percent_byte c) s)"

text \<open>
  The \<^verbatim>\<open>application/x-www-form-urlencoded\<close> serializer of the URL standard, which
  \<^verbatim>\<open>URLSearchParams.toString\<close> runs: letters, digits and \<^verbatim>\<open>*-._\<close> stay, a space becomes
  \<^verbatim>\<open>+\<close>, every other byte is percent-encoded.
\<close>

definition form_byte :: "char \<Rightarrow> string" where
  "form_byte c =
     (if c = CHR '' '' then ''+''
      else if is_alnum c \<or> c \<in> set ''*-._'' then [c]
      else percent_byte c)"

definition form_encode :: "string \<Rightarrow> string" where
  "form_encode s = concat (map form_byte s)"

type_synonym URLSearchParams = "(string \<times> string) list"

definition append_param :: "string \<Rightarrow> string \<Rightarrow> URLSearchParams \<Rightarrow> URLSearchParams" where
  "append_param k v ps = ps @ [(k, v)]"

definition params_toString :: "URLSearchParams \<Rightarrow> string" where
  "params_toString ps = join ''&'' (map (\<lambda>(k, v). form_encode k @ ''='' @ form_encode v) ps)"

subsection \<open>Errors, responses and \<^verbatim>\<open>fetch\<close>\<close>

text \<open>
  A thrown value or a rejected promise is an error object with a name and a message.
  \<^verbatim>\<open>new Error(m)\<close> has the name \<^verbatim>\<open>Error\<close>.
\<close>

datatype js_error = JsError (err_name: string) (err_message: string)

definition new_Error :: "string \<Rightarrow> js_error" where
  "new_Error m = JsError ''Error'' m"

text \<open>
  What the client reads of a \<^verbatim>\<open>Response\<close>: the status line and the body. The body is the
  outcome of reading the stream as text, which can fail.
\<close>

record response =
  status :: nat
  statusText :: string
  body_read :: "js_error + string"

text \<open>\<^verbatim>\<open>response.ok\<close> of the Fetch standard.\<close>

definition ok :: "response \<Rightarrow> bool" where
  "ok r = (200 \<le> status r \<and> status r \<le> 299)"

definition response_text :: "response \<Rightarrow> js_error + string" where
  "response_text r = body_read r"

text \<open>\<^verbatim>\<open>RequestInit\<close>, with the members this client sets.\<close>

record RequestInit =
  http_method :: "string option"
  body :: "string option"
  headers :: "string js_object option"

definition no_options :: RequestInit where
  "no_options = \<lparr>http_method = None, body = None, headers = None\<rparr>"

text \<open>The two arguments \<^verbatim>\<open>fetch\<close> is called with.\<close>

record fetch_args =
  fetch_url :: string
  fetch_init :: RequestInit

text \<open>
  The runtime's parameters: \<^verbatim>\<open>fetch\<close> is the remote system seen from the client, a function
  of the remote's state \<open>'w\<close> that settles with a response or rejects with an error;
  \<^verbatim>\<open>JSON.parse\<close> returns a value or throws.
\<close>

record 'w runtime =
  fetch :: "fetch_args \<Rightarrow> 'w \<Rightarrow> (js_error + response) \<times> 'w"
  JSON_parse :: "string \<Rightarrow> js_error + jsval"

text \<open>The network: the remote's state and the log of every call of \<^verbatim>\<open>fetch\<close> so far.\<close>

record 'w net =
  remote :: 'w
  calls :: "fetch_args list"

definition fetch_call :: "'w runtime \<Rightarrow> fetch_args \<Rightarrow> 'w net \<Rightarrow> (js_error + response) \<times> 'w net" where
  "fetch_call rt a s =
     (case fetch rt a (remote s) of
        (out, w') \<Rightarrow> (out, \<lparr>remote = w', calls = calls s @ [a]\<rparr>))"

text \<open>\<^verbatim>\<open>response.json()\<close>: read the body, then parse it.\<close>

definition response_json :: "'w runtime \<Rightarrow> response \<Rightarrow> js_error + jsval" where
  "response_json rt r = (case body_read r of Inl e \<Rightarrow> Inl e | Inr t \<Rightarrow> JSON_parse rt t)"

subsection \<open>A reference \<^verbatim>\<open>JSON.parse\<close>\<close>

text \<open>
  The theorems below hold for every \<open>JSON_parse\<close> a runtime may have. \<open>JSON_parse_ref\<close> is
  one such parser, for the values of type \<open>jsval\<close>: the JSON grammar of ECMA-404 with
  whitespace and escapes, by recursive descent. It rejects what \<open>jsval\<close> cannot hold (a
  number with a fraction or an exponent, an escaped surrogate). The nesting is bounded
  by a counter that starts above the length of the text, so it never runs out on a text
  it could otherwise parse.
\<close>

definition is_ws :: "char \<Rightarrow> bool" where
  "is_ws c = (c = CHR '' '' \<or> c = CHR 0x09 \<or> c = CHR 0x0A \<or> c = CHR 0x0D)"

definition skip_ws :: "string \<Rightarrow> string" where
  "skip_ws s = dropWhile is_ws s"

definition is_digit :: "char \<Rightarrow> bool" where
  "is_digit c = (48 \<le> (of_char c :: nat) \<and> (of_char c :: nat) \<le> 57)"

definition digits_value :: "string \<Rightarrow> nat" where
  "digits_value ds = foldl (\<lambda>n c. 10 * n + (of_char c - 48)) 0 ds"

definition hex_value :: "char \<Rightarrow> nat option" where
  "hex_value c =
     (let n = (of_char c :: nat) in
      if 48 \<le> n \<and> n \<le> 57 then Some (n - 48)
      else if 65 \<le> n \<and> n \<le> 70 then Some (n - 55)
      else if 97 \<le> n \<and> n \<le> 102 then Some (n - 87)
      else None)"

definition hex4 :: "char \<Rightarrow> char \<Rightarrow> char \<Rightarrow> char \<Rightarrow> nat option" where
  "hex4 a b c d =
     (case (hex_value a, hex_value b, hex_value c, hex_value d) of
        (Some x, Some y, Some z, Some w) \<Rightarrow> Some (((x * 16 + y) * 16 + z) * 16 + w)
      | _ \<Rightarrow> None)"

text \<open>The UTF-8 bytes of a code point of the basic plane.\<close>

definition utf8 :: "nat \<Rightarrow> string" where
  "utf8 n =
     (if n < 128 then [char_of n]
      else if n < 2048 then [char_of (192 + n div 64), char_of (128 + n mod 64)]
      else [char_of (224 + n div 4096), char_of (128 + (n div 64) mod 64),
            char_of (128 + n mod 64)])"

definition simple_escape :: "char \<Rightarrow> char option" where
  "simple_escape e =
     (if e = CHR 0x22 \<or> e = CHR 0x5C \<or> e = CHR ''/'' then Some e
      else if e = CHR ''b'' then Some (CHR 0x08)
      else if e = CHR ''f'' then Some (CHR 0x0C)
      else if e = CHR ''n'' then Some (CHR 0x0A)
      else if e = CHR ''r'' then Some (CHR 0x0D)
      else if e = CHR ''t'' then Some (CHR 0x09)
      else None)"

text \<open>The characters of a string after its opening quote, up to the closing one.\<close>

fun parse_chars :: "string \<Rightarrow> (string \<times> string) option" where
  "parse_chars [] = None"
| "parse_chars (c # r) =
     (if c = CHR 0x22 then Some ([], r)
      else if c = CHR 0x5C then
        (case r of
           [] \<Rightarrow> None
         | e # r1 \<Rightarrow>
             if e = CHR ''u'' then
               (case r1 of
                  a # b # c # d # r2 \<Rightarrow>
                    (case hex4 a b c d of
                       None \<Rightarrow> None
                     | Some n \<Rightarrow>
                         if 55296 \<le> n \<and> n < 57344 then None
                         else map_option (\<lambda>(s, t). (utf8 n @ s, t)) (parse_chars r2))
                | _ \<Rightarrow> None)
             else
               (case simple_escape e of
                  None \<Rightarrow> None
                | Some x \<Rightarrow> map_option (\<lambda>(s, t). (x # s, t)) (parse_chars r1)))
      else if (of_char c :: nat) < 32 then None
      else map_option (\<lambda>(s, t). (c # s, t)) (parse_chars r))"

definition parse_number :: "string \<Rightarrow> (jsval \<times> string) option" where
  "parse_number s =
     (let neg = (s \<noteq> [] \<and> hd s = CHR ''-'');
          s1 = (if neg then tl s else s);
          ds = takeWhile is_digit s1;
          r = dropWhile is_digit s1
      in if ds = [] \<or> (length ds > 1 \<and> hd ds = CHR ''0'') then None
         else if r \<noteq> [] \<and> (hd r = CHR ''.'' \<or> hd r = CHR ''e'' \<or> hd r = CHR ''E'') then None
         else Some (JNum (if neg then - int (digits_value ds) else int (digits_value ds)), r))"

definition parse_word :: "string \<Rightarrow> jsval \<Rightarrow> string \<Rightarrow> (jsval \<times> string) option" where
  "parse_word w v s = (if take (length w) s = w then Some (v, drop (length w) s) else None)"

text \<open>A key that occurs twice keeps its first place and its last value, as in JavaScript.\<close>

definition object_of :: "(string \<times> jsval) list \<Rightarrow> jsval" where
  "object_of ps = JObj (spread [] ps)"

fun parse_value :: "nat \<Rightarrow> string \<Rightarrow> (jsval \<times> string) option"
  and parse_elems :: "nat \<Rightarrow> string \<Rightarrow> (jsval list \<times> string) option"
  and parse_members :: "nat \<Rightarrow> string \<Rightarrow> ((string \<times> jsval) list \<times> string) option" where
  "parse_value 0 s = None"
| "parse_value (Suc n) s =
     (case skip_ws s of
        [] \<Rightarrow> None
      | c # r \<Rightarrow>
          if c = CHR ''{'' then
            (case skip_ws r of
               [] \<Rightarrow> None
             | d # r1 \<Rightarrow>
                 if d = CHR ''}'' then Some (JObj [], r1)
                 else map_option (\<lambda>(ps, t). (object_of ps, t)) (parse_members n r))
          else if c = CHR ''['' then
            (case skip_ws r of
               [] \<Rightarrow> None
             | d # r1 \<Rightarrow>
                 if d = CHR '']'' then Some (JArr [], r1)
                 else map_option (\<lambda>(xs, t). (JArr xs, t)) (parse_elems n r))
          else if c = CHR 0x22 then map_option (\<lambda>(x, t). (JStr x, t)) (parse_chars r)
          else if c = CHR ''t'' then parse_word ''true'' (JBool True) (c # r)
          else if c = CHR ''f'' then parse_word ''false'' (JBool False) (c # r)
          else if c = CHR ''n'' then parse_word ''null'' JNull (c # r)
          else parse_number (c # r))"
| "parse_elems 0 s = None"
| "parse_elems (Suc n) s =
     (case parse_value n s of
        None \<Rightarrow> None
      | Some (v, r) \<Rightarrow>
          (case skip_ws r of
             [] \<Rightarrow> None
           | c # r1 \<Rightarrow>
               if c = CHR '']'' then Some ([v], r1)
               else if c = CHR '','' then
                 map_option (\<lambda>(vs, t). (v # vs, t)) (parse_elems n r1)
               else None))"
| "parse_members 0 s = None"
| "parse_members (Suc n) s =
     (case skip_ws s of
        [] \<Rightarrow> None
      | q # r \<Rightarrow>
          if q \<noteq> CHR 0x22 then None
          else
            (case parse_chars r of
               None \<Rightarrow> None
             | Some (k, r1) \<Rightarrow>
                 (case skip_ws r1 of
                    [] \<Rightarrow> None
                  | c # r2 \<Rightarrow>
                      if c \<noteq> CHR '':'' then None
                      else
                        (case parse_value n r2 of
                           None \<Rightarrow> None
                         | Some (v, r3) \<Rightarrow>
                             (case skip_ws r3 of
                                [] \<Rightarrow> None
                              | e # r4 \<Rightarrow>
                                  if e = CHR ''}'' then Some ([(k, v)], r4)
                                  else if e = CHR '','' then
                                    map_option (\<lambda>(ps, t). ((k, v) # ps, t))
                                      (parse_members n r4)
                                  else None)))))"

definition syntax_error :: js_error where
  "syntax_error = JsError ''SyntaxError'' ''Unexpected token in JSON''"

definition JSON_parse_ref :: "string \<Rightarrow> js_error + jsval" where
  "JSON_parse_ref s =
     (case parse_value (Suc (length s)) s of
        None \<Rightarrow> Inl syntax_error
      | Some (v, r) \<Rightarrow> if skip_ws r = [] then Inr v else Inl syntax_error)"


subsection \<open>Reading a query string back\<close>

text \<open>
  The \<^verbatim>\<open>application/x-www-form-urlencoded\<close> parser of the URL standard, which the remote
  runs on the query: the text is split at \<^verbatim>\<open>&\<close>, each piece that is not empty at its first
  \<^verbatim>\<open>=\<close>, and in name and value \<^verbatim>\<open>+\<close> becomes a space and \<^verbatim>\<open>%XY\<close> a byte.
\<close>

fun split_on :: "char \<Rightarrow> string \<Rightarrow> string list" where
  "split_on c [] = [[]]"
| "split_on c (x # xs) =
     (if x = c then [] # split_on c xs
      else (case split_on c xs of [] \<Rightarrow> [[x]] | y # ys \<Rightarrow> (x # y) # ys))"

fun percent_decode :: "string \<Rightarrow> string" where
  "percent_decode [] = []"
| "percent_decode (c # r) =
     (if c = CHR ''%'' then
        (case r of
           a # b # r' \<Rightarrow>
             (case (hex_value a, hex_value b) of
                (Some x, Some y) \<Rightarrow> char_of (16 * x + y) # percent_decode r'
              | _ \<Rightarrow> c # percent_decode r)
         | _ \<Rightarrow> c # percent_decode r)
      else c # percent_decode r)"

definition plus_to_space :: "char \<Rightarrow> char" where
  "plus_to_space c = (if c = CHR ''+'' then CHR '' '' else c)"

definition form_decode :: "string \<Rightarrow> string" where
  "form_decode s = percent_decode (map plus_to_space s)"

definition parse_pair :: "string \<Rightarrow> string \<times> string" where
  "parse_pair p =
     (form_decode (takeWhile (\<lambda>c. c \<noteq> CHR ''='') p),
      form_decode (drop 1 (dropWhile (\<lambda>c. c \<noteq> CHR ''='') p)))"

definition parse_query :: "string \<Rightarrow> (string \<times> string) list" where
  "parse_query q = map parse_pair (filter (\<lambda>p. p \<noteq> []) (split_on CHR ''&'' q))"


subsection \<open>Notions for the proof that the reference parser inverts \<^verbatim>\<open>JSON.stringify\<close>\<close>






text \<open>
  A remote that gives every request the same outcome and has no state of its own, on a
  runtime with the reference parser; and the network before any call.
\<close>

definition replying :: "js_error + response \<Rightarrow> unit runtime" where
  "replying out = \<lparr>fetch = (\<lambda>a w. (out, w)), JSON_parse = JSON_parse_ref\<rparr>"

definition idle :: "unit net" where
  "idle = \<lparr>remote = (), calls = []\<rparr>"

section \<open>The client\<close>

datatype ArrService = sonarr | radarr | lidarr | readarr | prowlarr

fun service_string :: "ArrService \<Rightarrow> string" where
  "service_string sonarr = ''sonarr''"
| "service_string radarr = ''radarr''"
| "service_string lidarr = ''lidarr''"
| "service_string readarr = ''readarr''"
| "service_string prowlarr = ''prowlarr''"

record ArrConfig =
  url :: string
  apiKey :: string

record ArrClient =
  config :: ArrConfig
  serviceName :: ArrService
  apiVersion :: string

text \<open>\<^verbatim>\<open>s.replace(/\/$/, '')\<close>: a slash at the very end of the string is removed.\<close>

definition strip_trailing_slash :: "string \<Rightarrow> string" where
  "strip_trailing_slash s = (if s \<noteq> [] \<and> last s = CHR ''/'' then butlast s else s)"

definition new_ArrClient :: "ArrService \<Rightarrow> ArrConfig \<Rightarrow> ArrClient" where
  "new_ArrClient name cfg =
     \<lparr>config = \<lparr>url = strip_trailing_slash (url cfg), apiKey = apiKey cfg\<rparr>,
      serviceName = name,
      apiVersion = ''v3''\<rparr>"

type_synonym 'w outcome = "(js_error + jsval) \<times> 'w net"

definition request_url :: "ArrClient \<Rightarrow> string \<Rightarrow> string" where
  "request_url c endpoint = url (config c) @ ''/api/'' @ apiVersion c @ endpoint"

text \<open>\<^verbatim>\<open>options.headers || {}\<close>\<close>

definition supplied_headers :: "RequestInit \<Rightarrow> string js_object" where
  "supplied_headers options = (case headers options of None \<Rightarrow> [] | Some h \<Rightarrow> h)"

definition request_headers :: "ArrClient \<Rightarrow> RequestInit \<Rightarrow> string js_object" where
  "request_headers c options =
     spread [(''Content-Type'', ''application/json''), (''X-Api-Key'', apiKey (config c))]
       (supplied_headers options)"

definition request_args :: "ArrClient \<Rightarrow> string \<Rightarrow> RequestInit \<Rightarrow> fetch_args" where
  "request_args c endpoint options =
     \<lparr>fetch_url = request_url c endpoint,
      fetch_init = options\<lparr>headers := Some (request_headers c options)\<rparr>\<rparr>"

definition api_error_message :: "ArrClient \<Rightarrow> response \<Rightarrow> string \<Rightarrow> string" where
  "api_error_message c r t =
     service_string (serviceName c) @ '' API error: '' @ string_of_nat (status r) @ '' ''
       @ statusText r @ '' - '' @ t"

definition request :: "'w runtime \<Rightarrow> ArrClient \<Rightarrow> string \<Rightarrow> RequestInit \<Rightarrow> 'w net \<Rightarrow> 'w outcome" where
  "request rt c endpoint options s =
     (case fetch_call rt (request_args c endpoint options) s of
        (Inl e, s') \<Rightarrow> (Inl e, s')
      | (Inr r, s') \<Rightarrow>
          if \<not> ok r then
            (case response_text r of
               Inl e \<Rightarrow> (Inl e, s')
             | Inr t \<Rightarrow> (Inl (new_Error (api_error_message c r t)), s'))
          else (response_json rt r, s'))"

subsection \<open>The five service clients\<close>

text \<open>
  The subclasses call the base constructor with their service name; three of them then
  overwrite \<open>apiVersion\<close>.
\<close>

definition new_SonarrClient :: "ArrConfig \<Rightarrow> ArrClient" where
  "new_SonarrClient cfg = new_ArrClient sonarr cfg"

definition new_RadarrClient :: "ArrConfig \<Rightarrow> ArrClient" where
  "new_RadarrClient cfg = new_ArrClient radarr cfg"

definition new_LidarrClient :: "ArrConfig \<Rightarrow> ArrClient" where
  "new_LidarrClient cfg = (new_ArrClient lidarr cfg)\<lparr>apiVersion := ''v1''\<rparr>"

definition new_ReadarrClient :: "ArrConfig \<Rightarrow> ArrClient" where
  "new_ReadarrClient cfg = (new_ArrClient readarr cfg)\<lparr>apiVersion := ''v1''\<rparr>"

definition new_ProwlarrClient :: "ArrConfig \<Rightarrow> ArrClient" where
  "new_ProwlarrClient cfg = (new_ArrClient prowlarr cfg)\<lparr>apiVersion := ''v1''\<rparr>"

fun new_client :: "ArrService \<Rightarrow> ArrConfig \<Rightarrow> ArrClient" where
  "new_client sonarr cfg = new_SonarrClient cfg"
| "new_client radarr cfg = new_RadarrClient cfg"
| "new_client lidarr cfg = new_LidarrClient cfg"
| "new_client readarr cfg = new_ReadarrClient cfg"
| "new_client prowlarr cfg = new_ProwlarrClient cfg"

subsection \<open>The methods\<close>

text \<open>
  Every method but \<open>testConnection\<close> is one call \<^verbatim>\<open>return this.request(endpoint, options)\<close>.
  The type \<open>operation\<close> has one constructor for each of them, with the method's arguments:
  an optional argument is an \<open>option\<close>, \<open>None\<close> when the caller leaves it out. \<open>api_call\<close>
  gives the endpoint and the options the method passes on.
\<close>

datatype operation =
    getStatus
  | getQueue
  | getCalendar "string option" "string option"
  | getRootFolders
  | getQualityProfiles
  | getQualityDefinitions
  | getDownloadClients
  | getNamingConfig
  | getMediaManagement
  | getHealth
  | getTags
  | getRootFoldersDetailed
  | getIndexers
  | getSeries
  | getSeriesById int
  | searchSeries string
  | addSeries "jsval js_object"
  | searchMissing int
  | getEpisodes int "int option"
  | searchEpisode "int list"
  | getMovies
  | getMovieById int
  | searchMovies string
  | addMovie "jsval js_object"
  | searchMovie int
  | getArtists
  | getArtistById int
  | searchArtists string
  | addArtist "jsval js_object"
  | getAlbums "int option"
  | getAlbumById int
  | searchMissingAlbums int
  | searchAlbum int
  | Lidarr_getCalendar "string option" "string option"
  | Lidarr_getMetadataProfiles
  | getAuthors
  | getAuthorById int
  | searchAuthors string
  | addAuthor "jsval js_object"
  | getBooks "int option"
  | getBookById int
  | searchMissingBooks int
  | searchBook "int list"
  | Readarr_getCalendar "string option" "string option"
  | Readarr_getMetadataProfiles
  | Prowlarr_getIndexers
  | testAllIndexers
  | testIndexer int
  | getIndexerStats
  | search string "int list option"

text \<open>\<^verbatim>\<open>if (v) params.append(k, v)\<close> for an optional string: the empty string is falsy.\<close>

fun append_if_truthy :: "string \<Rightarrow> string option \<Rightarrow> URLSearchParams \<Rightarrow> URLSearchParams" where
  "append_if_truthy k None ps = ps"
| "append_if_truthy k (Some v) ps = (if v \<noteq> [] then append_param k v ps else ps)"

text \<open>The body of the three \<open>getCalendar\<close> methods, which are the same text.\<close>

definition calendar_endpoint :: "string option \<Rightarrow> string option \<Rightarrow> string" where
  "calendar_endpoint start end' =
     (let params = [];
          params = append_if_truthy ''start'' start params;
          params = append_if_truthy ''end'' end' params;
          query = (if params_toString params \<noteq> [] then ''?'' @ params_toString params else [])
      in ''/calendar'' @ query)"

definition post :: "string option \<Rightarrow> RequestInit" where
  "post b = \<lparr>http_method = Some ''POST'', body = b, headers = None\<rparr>"

text \<open>The object literal \<^verbatim>\<open>{...obj, k1: v1, ...}\<close> of the add methods.\<close>

definition object_literal :: "jsval js_object \<Rightarrow> jsval js_object \<Rightarrow> jsval" where
  "object_literal obj props = JObj (spread (spread [] obj) props)"

fun api_call :: "operation \<Rightarrow> string \<times> RequestInit" where
  "api_call getStatus = (''/system/status'', no_options)"
| "api_call getQueue =
     (''/queue?includeUnknownSeriesItems=true&includeUnknownMovieItems=true'', no_options)"
| "api_call (getCalendar start end') = (calendar_endpoint start end', no_options)"
| "api_call getRootFolders = (''/rootfolder'', no_options)"
| "api_call getQualityProfiles = (''/qualityprofile'', no_options)"
| "api_call getQualityDefinitions = (''/qualitydefinition'', no_options)"
| "api_call getDownloadClients = (''/downloadclient'', no_options)"
| "api_call getNamingConfig = (''/config/naming'', no_options)"
| "api_call getMediaManagement = (''/config/mediamanagement'', no_options)"
| "api_call getHealth = (''/health'', no_options)"
| "api_call getTags = (''/tag'', no_options)"
| "api_call getRootFoldersDetailed = (''/rootfolder'', no_options)"
| "api_call getIndexers = (''/indexer'', no_options)"
| "api_call getSeries = (''/series'', no_options)"
| "api_call (getSeriesById id') = (''/series/'' @ string_of_int id', no_options)"
| "api_call (searchSeries term) =
     (''/series/lookup?term='' @ encodeURIComponent term, no_options)"
| "api_call (addSeries series) =
     (''/series'',
      post (JSON_stringify (object_literal series
        [(''monitored'', nullish (get_prop series ''monitored'') (JBool True)),
         (''seasonFolder'', nullish (get_prop series ''seasonFolder'') (JBool True)),
         (''addOptions'', JObj [(''searchForMissingEpisodes'', JBool True)])])))"
| "api_call (searchMissing seriesId) =
     (''/command'',
      post (JSON_stringify (JObj [(''name'', JStr ''SeriesSearch''), (''seriesId'', JNum seriesId)])))"
| "api_call (getEpisodes seriesId seasonNumber) =
     (let u = ''/episode?seriesId='' @ string_of_int seriesId;
          u = (case seasonNumber of
                 None \<Rightarrow> u
               | Some n \<Rightarrow> u @ ''&seasonNumber='' @ string_of_int n)
      in (u, no_options))"
| "api_call (searchEpisode episodeIds) =
     (''/command'',
      post (JSON_stringify (JObj [(''name'', JStr ''EpisodeSearch''),
                                  (''episodeIds'', JArr (map JNum episodeIds))])))"
| "api_call getMovies = (''/movie'', no_options)"
| "api_call (getMovieById id') = (''/movie/'' @ string_of_int id', no_options)"
| "api_call (searchMovies term) =
     (''/movie/lookup?term='' @ encodeURIComponent term, no_options)"
| "api_call (addMovie movie) =
     (''/movie'',
      post (JSON_stringify (object_literal movie
        [(''monitored'', nullish (get_prop movie ''monitored'') (JBool True)),
         (''addOptions'', JObj [(''searchForMovie'', JBool True)])])))"
| "api_call (searchMovie movieId) =
     (''/command'',
      post (JSON_stringify (JObj [(''name'', JStr ''MoviesSearch''),
                                  (''movieIds'', JArr [JNum movieId])])))"
| "api_call getArtists = (''/artist'', no_options)"
| "api_call (getArtistById id') = (''/artist/'' @ string_of_int id', no_options)"
| "api_call (searchArtists term) =
     (''/artist/lookup?term='' @ encodeURIComponent term, no_options)"
| "api_call (addArtist artist) =
     (''/artist'',
      post (JSON_stringify (object_literal artist
        [(''monitored'', nullish (get_prop artist ''monitored'') (JBool True)),
         (''addOptions'', JObj [(''searchForMissingAlbums'', JBool True)])])))"
| "api_call (getAlbums artistId) =
     ((case artistId of
         None \<Rightarrow> ''/album''
       | Some n \<Rightarrow> if n \<noteq> 0 then ''/album?artistId='' @ string_of_int n else ''/album''),
      no_options)"
| "api_call (getAlbumById id') = (''/album/'' @ string_of_int id', no_options)"
| "api_call (searchMissingAlbums artistId) =
     (''/command'',
      post (JSON_stringify (JObj [(''name'', JStr ''ArtistSearch''), (''artistId'', JNum artistId)])))"
| "api_call (searchAlbum albumId) =
     (''/command'',
      post (JSON_stringify (JObj [(''name'', JStr ''AlbumSearch''),
                                  (''albumIds'', JArr [JNum albumId])])))"
| "api_call (Lidarr_getCalendar start end') = (calendar_endpoint start end', no_options)"
| "api_call Lidarr_getMetadataProfiles = (''/metadataprofile'', no_options)"
| "api_call getAuthors = (''/author'', no_options)"
| "api_call (getAuthorById id') = (''/author/'' @ string_of_int id', no_options)"
| "api_call (searchAuthors term) =
     (''/author/lookup?term='' @ encodeURIComponent term, no_options)"
| "api_call (addAuthor author) =
     (''/author'',
      post (JSON_stringify (object_literal author
        [(''monitored'', nullish (get_prop author ''monitored'') (JBool True)),
         (''addOptions'', JObj [(''searchForMissingBooks'', JBool True)])])))"
| "api_call (getBooks authorId) =
     ((case authorId of
         None \<Rightarrow> ''/book''
       | Some n \<Rightarrow> if n \<noteq> 0 then ''/book?authorId='' @ string_of_int n else ''/book''),
      no_options)"
| "api_call (getBookById id') = (''/book/'' @ string_of_int id', no_options)"
| "api_call (searchMissingBooks authorId) =
     (''/command'',
      post (JSON_stringify (JObj [(''name'', JStr ''AuthorSearch''), (''authorId'', JNum authorId)])))"
| "api_call (searchBook bookIds) =
     (''/command'',
      post (JSON_stringify (JObj [(''name'', JStr ''BookSearch''),
                                  (''bookIds'', JArr (map JNum bookIds))])))"
| "api_call (Readarr_getCalendar start end') = (calendar_endpoint start end', no_options)"
| "api_call Readarr_getMetadataProfiles = (''/metadataprofile'', no_options)"
| "api_call Prowlarr_getIndexers = (''/indexer'', no_options)"
| "api_call testAllIndexers = (''/indexer/testall'', post None)"
| "api_call (testIndexer indexerId) =
     (''/indexer/'' @ string_of_int indexerId @ ''/test'', post None)"
| "api_call getIndexerStats = (''/indexerstats'', no_options)"
| "api_call (search query categories) =
     (let params = [(''query'', query)];
          params = (case categories of
                      None \<Rightarrow> params
                    | Some cs \<Rightarrow> fold (\<lambda>c. append_param ''categories'' (string_of_int c)) cs params)
      in (''/search?'' @ params_toString params, no_options))"

definition perform :: "'w runtime \<Rightarrow> ArrClient \<Rightarrow> operation \<Rightarrow> 'w net \<Rightarrow> 'w outcome" where
  "perform rt c op s = (case api_call op of (endpoint, options) \<Rightarrow> request rt c endpoint options s)"

text \<open>\<^verbatim>\<open>try { await this.getStatus(); return true; } catch { return false; }\<close>\<close>

definition testConnection :: "'w runtime \<Rightarrow> ArrClient \<Rightarrow> 'w net \<Rightarrow> bool \<times> 'w net" where
  "testConnection rt c s =
     (case perform rt c getStatus s of
        (Inr v, s') \<Rightarrow> (True, s')
      | (Inl e, s') \<Rightarrow> (False, s'))"

subsection \<open>Example data\<close>

text \<open>The configuration and the two remote answers of the specification's scenarios.\<close>

definition example_config :: ArrConfig where
  "example_config = \<lparr>url = ''http://localhost:8989'', apiKey = ''abc123''\<rparr>"

definition profiles_response :: response where
  "profiles_response =
     \<lparr>status = 200, statusText = ''OK'',
      body_read = Inr ''[{\"id\":1,\"name\":\"HD-1080p\"}]''\<rparr>"

definition unauthorized_response :: response where
  "unauthorized_response =
     \<lparr>status = 401, statusText = ''Unauthorized'', body_read = Inr ''Unauthorized''\<rparr>"

text \<open>The answer of a remote that has queued a command under the identifier 42.\<close>

definition command_response :: response where
  "command_response =
     \<lparr>status = 201, statusText = ''Created'', body_read = Inr ''{\"id\":42}''\<rparr>"

text \<open>A response whose body stream breaks while it is read.\<close>

definition broken_response :: response where
  "broken_response =
     \<lparr>status = 500, statusText = ''Internal Server Error'',
      body_read = Inl (JsError ''TypeError'' ''terminated'')\<rparr>"

text \<open>Two different responses with the same status code.\<close>

definition gateway_response_1 :: response where
  "gateway_response_1 =
     \<lparr>status = 502, statusText = ''Bad Gateway'', body_read = Inr ''upstream - down''\<rparr>"

definition gateway_response_2 :: response where
  "gateway_response_2 =
     \<lparr>status = 502, statusText = ''Bad Gateway - upstream'', body_read = Inr ''down''\<rparr>"

section \<open>What one call of \<open>request\<close> does\<close>

lemma request_calls:
  "calls (snd (request rt c endpoint options s)) = calls s @ [request_args c endpoint options]"
  by (simp add: request_def fetch_call_def split: prod.splits sum.splits)

lemma request_result:
  "fst (request rt c endpoint options s) =
     (case fst (fetch rt (request_args c endpoint options) (remote s)) of
        Inl e \<Rightarrow> Inl e
      | Inr r \<Rightarrow>
          if ok r then response_json rt r
          else (case body_read r of
                  Inl e \<Rightarrow> Inl e
                | Inr t \<Rightarrow> Inl (new_Error (api_error_message c r t))))"
  by (simp add: request_def fetch_call_def response_text_def split: prod.splits sum.splits)

lemma request_remote:
  "remote (snd (request rt c endpoint options s)) =
     snd (fetch rt (request_args c endpoint options) (remote s))"
  by (simp add: request_def fetch_call_def split: prod.splits sum.splits)

lemma perform_calls:
  "calls (snd (perform rt c op s))
     = calls s @ [request_args c (fst (api_call op)) (snd (api_call op))]"
  by (simp add: perform_def request_calls split: prod.splits)

lemma perform_result:
  "fst (perform rt c op s) = fst (request rt c (fst (api_call op)) (snd (api_call op)) s)"
  by (simp add: perform_def split: prod.splits)

lemma perform_remote:
  "remote (snd (perform rt c op s))
     = snd (fetch rt (request_args c (fst (api_call op)) (snd (api_call op))) (remote s))"
  by (simp add: perform_def request_remote split: prod.splits)

lemma api_call_headers: "headers (snd (api_call op)) = None"
  by (cases op) (simp_all add: no_options_def post_def Let_def)

lemma replying_fetch: "fst (fetch (replying out) a w) = out"
  by (simp add: replying_def)

lemma string_of_nat_examples:
  "string_of_nat 401 = ''401''" "string_of_nat 500 = ''500''" "string_of_nat 502 = ''502''"
  by code_simp+

subsection \<open>Objects as maps\<close>

lemma map_of_set_prop: "map_of (set_prop k v ps) = (map_of ps)(k \<mapsto> v)"
  by (induction ps) (auto simp: fun_eq_iff)

lemma map_of_spread: "map_of (spread t ps) = map_of t ++ map_of (rev ps)"
proof (induction ps arbitrary: t)
  case Nil
  show ?case by simp
next
  case (Cons p ps)
  obtain k v where p: "p = (k, v)" by (cases p)
  show ?case
    by (simp add: p Cons.IH map_of_set_prop fun_eq_iff map_add_def split: option.splits)
qed

lemma map_of_rev_distinct: "distinct (map fst ps) \<Longrightarrow> map_of (rev ps) = map_of ps"
proof (induction ps)
  case Nil
  show ?case by simp
next
  case (Cons p ps)
  obtain k v where p: "p = (k, v)" by (cases p)
  from Cons.prems p have k: "k \<notin> fst ` set ps" and d: "distinct (map fst ps)"
    by auto
  from k have "map_of ps k = None"
    by (simp add: map_of_eq_None_iff)
  with Cons.IH [OF d] show ?case
    by (auto simp: p fun_eq_iff map_add_def split: option.splits)
qed

lemma get_prop_absent: "k \<notin> fst ` set x \<Longrightarrow> get_prop x k = JUndefined"
  by (simp add: get_prop_def map_of_eq_None_iff [THEN iffD2])

lemma nullish_undefined: "nullish JUndefined b = b"
  by (simp add: nullish_def)

lemma object_literal_lookup:
  "\<exists>obj. object_literal x ps = JObj obj \<and> map_of obj = map_of (rev x) ++ map_of (rev ps)"
  by (simp add: object_literal_def map_of_spread)

subsection \<open>Encoded text\<close>

lemma form_byte_unreserved: "is_alnum c \<or> c \<in> set ''*-._'' \<Longrightarrow> form_byte c = [c]"
  by (auto simp: form_byte_def is_alnum_def)

lemma form_encode_unreserved:
  "\<forall>c \<in> set s. is_alnum c \<or> c \<in> set ''*-._'' \<Longrightarrow> form_encode s = s"
  by (induction s) (simp_all add: form_encode_def form_byte_unreserved)

lemma is_digit_alnum: "is_digit c \<Longrightarrow> is_alnum c"
  by (simp add: is_digit_def is_alnum_def)

lemma form_encode_keys: "form_encode ''start'' = ''start''" "form_encode ''end'' = ''end''"
  by code_simp+

lemma quote_examples:
  "quote ''name'' = ''\"name\"''"
  "quote ''SeriesSearch'' = ''\"SeriesSearch\"''"
  "quote ''seriesId'' = ''\"seriesId\"''"
  "quote ''MoviesSearch'' = ''\"MoviesSearch\"''"
  "quote ''movieIds'' = ''\"movieIds\"''"
  "quote ''ArtistSearch'' = ''\"ArtistSearch\"''"
  "quote ''artistId'' = ''\"artistId\"''"
  "quote ''AlbumSearch'' = ''\"AlbumSearch\"''"
  "quote ''albumIds'' = ''\"albumIds\"''"
  "quote ''AuthorSearch'' = ''\"AuthorSearch\"''"
  "quote ''authorId'' = ''\"authorId\"''"
  by code_simp+

lemma parse_examples:
  "JSON_parse_ref ''{\"id\":42}'' = Inr (JObj [(''id'', JNum 42)])"
  "JSON_parse_ref ''[{\"id\":1,\"name\":\"HD-1080p\"}]''
     = Inr (JArr [JObj [(''id'', JNum 1), (''name'', JStr ''HD-1080p'')]])"
  "JSON_parse_ref ''Unauthorized'' = Inl syntax_error"
  by code_simp+

section \<open>URL construction\<close>

text \<open>
  Claim C2. A client built from the configuration \<open>cfg\<close>, whatever its version segment
  \<open>v\<close>, sends each request to the base URL as the constructor stored it, followed by
  \<^verbatim>\<open>/api/\<close>, the version and the endpoint. The stored base URL is the configured one, or
  the configured one without its final slash when it ends in a slash: one slash at most
  is removed, once, and \<open>request\<close> does not normalise again.
\<close>

theorem request_url_construction:
  "map fetch_url (calls (snd (request rt ((new_ArrClient name cfg)\<lparr>apiVersion := v\<rparr>) endpoint options s)))
     = map fetch_url (calls s) @ [strip_trailing_slash (url cfg) @ ''/api/'' @ v @ endpoint]
   \<and> strip_trailing_slash (url cfg) =
       (if url cfg \<noteq> [] \<and> last (url cfg) = CHR ''/'' then butlast (url cfg) else url cfg)
   \<and> strip_trailing_slash (b @ ''/'') = b"
  by (simp add: request_calls request_args_def request_url_def new_ArrClient_def
      strip_trailing_slash_def)

text \<open>
  The scenario of the specification, with and without a final slash in the configured
  URL, and with two of them: only the last one goes.
\<close>

theorem request_url_construction_witness:
  "map fetch_url (calls (snd (request (replying (Inr profiles_response))
       ((new_ArrClient sonarr example_config)\<lparr>apiVersion := ''v3''\<rparr>) ''/qualityprofile'' no_options idle)))
     = [''http://localhost:8989/api/v3/qualityprofile'']
   \<and> map fetch_url (calls (snd (request (replying (Inr profiles_response))
       ((new_ArrClient sonarr \<lparr>url = ''http://localhost:8989/'', apiKey = ''abc123''\<rparr>)\<lparr>apiVersion := ''v3''\<rparr>)
       ''/qualityprofile'' no_options idle)))
     = [''http://localhost:8989/api/v3/qualityprofile'']
   \<and> map fetch_url (calls (snd (request (replying (Inr profiles_response))
       ((new_ArrClient lidarr \<lparr>url = ''http://localhost:8686//'', apiKey = ''abc123''\<rparr>)\<lparr>apiVersion := ''v1''\<rparr>)
       ''/artist'' no_options idle)))
     = [''http://localhost:8686//api/v1/artist'']"
  using request_url_construction [where rt = "replying (Inr profiles_response)"
      and name = sonarr and cfg = example_config and v = "''v3''"
      and endpoint = "''/qualityprofile''" and options = no_options and s = idle]
    request_url_construction [where rt = "replying (Inr profiles_response)"
      and name = sonarr and cfg = "\<lparr>url = ''http://localhost:8989/'', apiKey = ''abc123''\<rparr>"
      and v = "''v3''" and endpoint = "''/qualityprofile''" and options = no_options and s = idle]
    request_url_construction [where rt = "replying (Inr profiles_response)"
      and name = lidarr and cfg = "\<lparr>url = ''http://localhost:8686//'', apiKey = ''abc123''\<rparr>"
      and v = "''v1''" and endpoint = "''/artist''" and options = no_options and s = idle]
  by (simp add: example_config_def idle_def)

section \<open>Responses outside 200 to 299\<close>

text \<open>
  Claim C1, as the code has it. When the remote answers with a status outside 200 to 299
  and the body can be read, \<open>request\<close> fails with an \<^verbatim>\<open>Error\<close> whose message is the service
  name, \<^verbatim>\<open> API error: \<close>, the status, a space, the status text, \<^verbatim>\<open> - \<close> and the body
  text, in one string; an empty body leaves the message ending in \<^verbatim>\<open> - \<close>. When reading
  the body fails, \<open>request\<close> fails with the error of the read. In both cases \<^verbatim>\<open>fetch\<close> was
  called once.
\<close>

theorem non_2xx_failure:
  assumes "fst (fetch rt (request_args c endpoint options) (remote s)) = Inr r"
    and "\<not> ok r"
  shows "fst (request rt c endpoint options s) =
           (case body_read r of
              Inr t \<Rightarrow> Inl (JsError ''Error''
                (service_string (serviceName c) @ '' API error: '' @ string_of_nat (status r)
                   @ '' '' @ statusText r @ '' - '' @ t))
            | Inl e \<Rightarrow> Inl e)
         \<and> calls (snd (request rt c endpoint options s))
             = calls s @ [request_args c endpoint options]"
  using assms
  by (simp add: request_result request_calls new_Error_def api_error_message_def
      split: sum.splits)

text \<open>The 401 scenario of the specification.\<close>

theorem non_2xx_failure_witness:
  "fst (request (replying (Inr unauthorized_response)) (new_SonarrClient example_config)
          ''/qualityprofile'' no_options idle)
     = Inl (JsError ''Error'' ''sonarr API error: 401 Unauthorized - Unauthorized'')
   \<and> length (calls (snd (request (replying (Inr unauthorized_response))
          (new_SonarrClient example_config) ''/qualityprofile'' no_options idle))) = 1"
proof -
  have h1: "fst (fetch (replying (Inr unauthorized_response))
                  (request_args (new_SonarrClient example_config) ''/qualityprofile'' no_options)
                  (remote idle)) = Inr unauthorized_response"
    by (simp add: replying_fetch)
  have h2: "\<not> ok unauthorized_response"
    by (simp add: ok_def unauthorized_response_def)
  from non_2xx_failure [OF h1 h2] show ?thesis
    by (simp add: unauthorized_response_def new_SonarrClient_def new_ArrClient_def
        string_of_nat_examples idle_def)
qed

text \<open>
  Claim C1 as it is written fails twice. A 500 response whose body cannot be read does
  not give a failure with an empty body: the error of the read comes out, and it names
  neither the service nor the status. And the failure has no field for the status text
  or the body: two responses that differ in both give the same failure.
\<close>

theorem non_2xx_failure_counterexample:
  "fst (request (replying (Inr broken_response)) (new_SonarrClient example_config)
          ''/system/status'' no_options idle)
     = Inl (JsError ''TypeError'' ''terminated'')
   \<and> fst (request (replying (Inr broken_response)) (new_SonarrClient example_config)
          ''/system/status'' no_options idle)
     \<noteq> Inl (JsError ''Error'' ''sonarr API error: 500 Internal Server Error - '')
   \<and> fst (request (replying (Inr gateway_response_1)) (new_SonarrClient example_config)
          ''/system/status'' no_options idle)
     = fst (request (replying (Inr gateway_response_2)) (new_SonarrClient example_config)
          ''/system/status'' no_options idle)
   \<and> statusText gateway_response_1 \<noteq> statusText gateway_response_2
   \<and> body_read gateway_response_1 \<noteq> body_read gateway_response_2"
  by (simp add: request_result replying_fetch ok_def broken_response_def gateway_response_1_def
      gateway_response_2_def new_Error_def api_error_message_def new_SonarrClient_def
      new_ArrClient_def string_of_nat_examples)

section \<open>The reference parser inverts \<^verbatim>\<open>JSON.stringify\<close>\<close>

subsection \<open>Numbers\<close>












subsection \<open>Strings and objects\<close>










subsection \<open>One step of the parser\<close>

















subsection \<open>Values\<close>






section \<open>Responses from 200 to 299\<close>



section \<open>Headers\<close>

lemma map_of_request_headers:
  "map_of (request_headers c options) =
     map_of [(''Content-Type'', ''application/json''), (''X-Api-Key'', apiKey (config c))]
       ++ map_of (rev (supplied_headers options))"
  by (simp only: request_headers_def map_of_spread)

lemma header_present:
  assumes "map_of ds k = Some d"
  shows "\<exists>v. (map_of ds ++ map_of (rev h)) k = Some v
           \<and> (if k \<in> fst ` set h then (k, v) \<in> set h else v = d)"
proof (cases "map_of (rev h) k")
  case None
  then have "k \<notin> fst ` set h"
    by (simp add: map_of_eq_None_iff)
  with None assms show ?thesis
    by (simp add: map_add_def)
next
  case (Some v)
  then have "(k, v) \<in> set h"
    using map_of_SomeD by fastforce
  then have "k \<in> fst ` set h"
    by force
  with Some \<open>(k, v) \<in> set h\<close> show ?thesis
    by (simp add: map_add_def)
qed

text \<open>
  Claim C4. The headers \<^verbatim>\<open>fetch\<close> receives are \<open>request_headers\<close>. They always hold an
  \<^verbatim>\<open>X-Api-Key\<close> and a \<^verbatim>\<open>Content-Type\<close>: with the configured key and \<^verbatim>\<open>application/json\<close>
  unless the caller's headers have an entry of that very name, and then with a value the
  caller gave for it. With no caller headers they are exactly the two defaults.
\<close>

theorem default_headers:
  "headers (fetch_init (last (calls (snd (request rt c endpoint options s)))))
     = Some (request_headers c options)
   \<and> (\<exists>v. map_of (request_headers c options) ''X-Api-Key'' = Some v
          \<and> (if ''X-Api-Key'' \<in> fst ` set (supplied_headers options)
             then (''X-Api-Key'', v) \<in> set (supplied_headers options)
             else v = apiKey (config c)))
   \<and> (\<exists>v. map_of (request_headers c options) ''Content-Type'' = Some v
          \<and> (if ''Content-Type'' \<in> fst ` set (supplied_headers options)
             then (''Content-Type'', v) \<in> set (supplied_headers options)
             else v = ''application/json''))
   \<and> (headers options = None \<longrightarrow>
        request_headers c options
          = [(''Content-Type'', ''application/json''), (''X-Api-Key'', apiKey (config c))])"
proof (intro conjI)
  show "headers (fetch_init (last (calls (snd (request rt c endpoint options s)))))
     = Some (request_headers c options)"
    by (simp add: request_calls request_args_def)
  have "map_of [(''Content-Type'', ''application/json''), (''X-Api-Key'', apiKey (config c))]
             ''X-Api-Key'' = Some (apiKey (config c))"
    by simp
  from header_present [OF this]
  show "\<exists>v. map_of (request_headers c options) ''X-Api-Key'' = Some v
          \<and> (if ''X-Api-Key'' \<in> fst ` set (supplied_headers options)
             then (''X-Api-Key'', v) \<in> set (supplied_headers options)
             else v = apiKey (config c))"
    unfolding map_of_request_headers .
  have "map_of [(''Content-Type'', ''application/json''), (''X-Api-Key'', apiKey (config c))]
             ''Content-Type'' = Some ''application/json''"
    by simp
  from header_present [OF this]
  show "\<exists>v. map_of (request_headers c options) ''Content-Type'' = Some v
          \<and> (if ''Content-Type'' \<in> fst ` set (supplied_headers options)
             then (''Content-Type'', v) \<in> set (supplied_headers options)
             else v = ''application/json'')"
    unfolding map_of_request_headers .
  show "headers options = None \<longrightarrow>
        request_headers c options
          = [(''Content-Type'', ''application/json''), (''X-Api-Key'', apiKey (config c))]"
    by (simp add: request_headers_def supplied_headers_def)
qed

text \<open>A caller that replaces the key and adds a header, and a caller that gives none.\<close>

theorem default_headers_witness:
  "map_of (request_headers (new_SonarrClient example_config)
             \<lparr>http_method = None, body = None,
              headers = Some [(''Accept'', ''text/plain''), (''X-Api-Key'', ''other'')]\<rparr>)
           ''X-Api-Key'' = Some ''other''
   \<and> request_headers (new_SonarrClient example_config) no_options
       = [(''Content-Type'', ''application/json''), (''X-Api-Key'', ''abc123'')]"
  using default_headers [where rt = "replying (Inr profiles_response)"
      and c = "new_SonarrClient example_config" and endpoint = "''/qualityprofile''"
      and options = "\<lparr>http_method = None, body = None,
        headers = Some [(''Accept'', ''text/plain''), (''X-Api-Key'', ''other'')]\<rparr>"
      and s = idle]
    default_headers [where rt = "replying (Inr profiles_response)"
      and c = "new_SonarrClient example_config" and endpoint = "''/qualityprofile''"
      and options = no_options and s = idle]
  by (simp add: supplied_headers_def no_options_def new_SonarrClient_def new_ArrClient_def
      example_config_def)

section \<open>Version prefix and authentication\<close>

text \<open>
  Claim C5. The constructors fix the version: \<^verbatim>\<open>v3\<close> for Sonarr and Radarr, \<^verbatim>\<open>v1\<close> for
  Lidarr, Readarr and Prowlarr. Whatever method a client runs, in whatever state of the
  network, the request goes to the stored base URL, \<^verbatim>\<open>/api/\<close>, that version and the
  method's endpoint, and carries the configured key in \<^verbatim>\<open>X-Api-Key\<close>. A client is a value:
  no method changes it.
\<close>

theorem version_prefix_fixed:
  "apiVersion (new_SonarrClient cfg) = ''v3'' \<and> apiVersion (new_RadarrClient cfg) = ''v3''
   \<and> apiVersion (new_LidarrClient cfg) = ''v1'' \<and> apiVersion (new_ReadarrClient cfg) = ''v1''
   \<and> apiVersion (new_ProwlarrClient cfg) = ''v1''
   \<and> fetch_url (last (calls (snd (perform rt (new_client svc cfg) op s))))
       = strip_trailing_slash (url cfg) @ ''/api/''
           @ (if svc = sonarr \<or> svc = radarr then ''v3'' else ''v1'') @ fst (api_call op)
   \<and> headers (fetch_init (last (calls (snd (perform rt (new_client svc cfg) op s)))))
       = Some [(''Content-Type'', ''application/json''), (''X-Api-Key'', apiKey cfg)]"
  by (cases svc)
    (simp_all add: perform_calls request_args_def request_url_def request_headers_def
      supplied_headers_def api_call_headers new_SonarrClient_def new_RadarrClient_def
      new_LidarrClient_def new_ReadarrClient_def new_ProwlarrClient_def new_ArrClient_def)

theorem version_prefix_fixed_witness:
  "fetch_url (last (calls (snd (perform (replying (Inr profiles_response))
       (new_client readarr example_config) getQualityProfiles idle))))
     = ''http://localhost:8989/api/v1/qualityprofile''
   \<and> fetch_url (last (calls (snd (perform (replying (Inr profiles_response))
       (new_client radarr example_config) getQualityProfiles idle))))
     = ''http://localhost:8989/api/v3/qualityprofile''"
  using version_prefix_fixed [where cfg = example_config
      and rt = "replying (Inr profiles_response)" and svc = readarr
      and op = getQualityProfiles and s = idle]
    version_prefix_fixed [where cfg = example_config
      and rt = "replying (Inr profiles_response)" and svc = radarr
      and op = getQualityProfiles and s = idle]
  by (simp add: example_config_def strip_trailing_slash_def)

section \<open>The connection test\<close>

text \<open>
  Claim C9. \<open>testConnection\<close> returns a boolean whatever the remote does: \<open>True\<close> exactly
  when \<open>getStatus\<close> returns a value, that is when \<^verbatim>\<open>fetch\<close> gives a response with a status
  from 200 to 299 whose body can be read and parsed; \<open>False\<close> when \<^verbatim>\<open>fetch\<close> rejects, the
  status is another one, the body cannot be read or it does not parse. The error is
  dropped. One request is made.
\<close>

theorem testConnection_total:
  "fst (testConnection rt c s) =
     (case fst (fetch rt (request_args c ''/system/status'' no_options) (remote s)) of
        Inl e \<Rightarrow> False
      | Inr r \<Rightarrow>
          ok r \<and> (case body_read r of
                    Inl e \<Rightarrow> False
                  | Inr t \<Rightarrow> (case JSON_parse rt t of Inl e \<Rightarrow> False | Inr v \<Rightarrow> True)))
   \<and> fst (testConnection rt c s) = (\<exists>v. fst (perform rt c getStatus s) = Inr v)
   \<and> calls (snd (testConnection rt c s))
       = calls s @ [request_args c ''/system/status'' no_options]"
  by (simp add: testConnection_def perform_def request_def fetch_call_def response_text_def
      response_json_def split: prod.splits sum.splits)

text \<open>
  A remote that answers 200 with a JSON body, one that answers 401, and one that cannot
  be reached.
\<close>

theorem testConnection_total_witness:
  "fst (testConnection (replying (Inr profiles_response)) (new_SonarrClient example_config) idle)
   \<and> \<not> fst (testConnection (replying (Inr unauthorized_response))
            (new_SonarrClient example_config) idle)
   \<and> \<not> fst (testConnection (replying (Inl (JsError ''TypeError'' ''fetch failed'')))
            (new_SonarrClient example_config) idle)
   \<and> length (calls (snd (testConnection (replying (Inr profiles_response))
            (new_SonarrClient example_config) idle))) = 1"
  using testConnection_total [where rt = "replying (Inr profiles_response)"
      and c = "new_SonarrClient example_config" and s = idle]
    testConnection_total [where rt = "replying (Inr unauthorized_response)"
      and c = "new_SonarrClient example_config" and s = idle]
    testConnection_total [where rt = "replying (Inl (JsError ''TypeError'' ''fetch failed''))"
      and c = "new_SonarrClient example_config" and s = idle]
  by (simp add: replying_fetch ok_def profiles_response_def unauthorized_response_def
      replying_def parse_examples idle_def)

section \<open>Calendar requests\<close>

subsection \<open>The query parser inverts the serializer\<close>

lemma hex_value_upper: "d < 16 \<Longrightarrow> hex_value (hex_upper d) = Some d"
  by (auto simp: hex_value_def hex_upper_def Let_def)

lemma hex_upper_code:
  "d < 16 \<Longrightarrow> (of_char (hex_upper d) :: nat) = (if d < 10 then 48 + d else 55 + d)"
  by (simp add: hex_upper_def)

lemma hex_upper_plain:
  assumes "d < 16"
  shows "hex_upper d \<noteq> CHR ''+'' \<and> hex_upper d \<noteq> CHR ''&'' \<and> hex_upper d \<noteq> CHR 0x3D"
proof -
  have "(of_char (hex_upper d) :: nat) \<noteq> of_char CHR ''+''"
    and "(of_char (hex_upper d) :: nat) \<noteq> of_char CHR ''&''"
    and "(of_char (hex_upper d) :: nat) \<noteq> of_char CHR 0x3D"
    using assms by (simp_all add: hex_upper_code)
  then show ?thesis
    by metis
qed

lemma form_byte_decode:
  "percent_decode (map plus_to_space (form_byte c) @ rest) = c # percent_decode rest"
proof -
  define n where "n = (of_char c :: nat)"
  have lt: "n < 256" by (simp add: n_def)
  then have d: "n div 16 < 16" and m: "n mod 16 < 16" by simp_all
  have rebuilt: "char_of n = c"
    by (simp add: n_def)
  consider "c = CHR '' ''" | "c \<noteq> CHR '' ''" "is_alnum c \<or> c \<in> set ''*-._''"
    | "c \<noteq> CHR '' ''" "\<not> (is_alnum c \<or> c \<in> set ''*-._'')"
    by blast
  then show ?thesis
  proof cases
    case 1
    then show ?thesis
      by (simp add: form_byte_def plus_to_space_def)
  next
    case 2
    then have "c \<noteq> CHR ''+''" and "c \<noteq> CHR ''%''"
      by (auto simp: is_alnum_def)
    with 2 show ?thesis
      by (simp add: form_byte_def plus_to_space_def)
  next
    case 3
    then have f: "form_byte c = [CHR ''%'', hex_upper (n div 16), hex_upper (n mod 16)]"
      by (simp add: form_byte_def percent_byte_def n_def Let_def)
    from hex_upper_plain [OF d] hex_upper_plain [OF m]
    have p: "map plus_to_space (form_byte c) = [CHR ''%'', hex_upper (n div 16), hex_upper (n mod 16)]"
      by (simp add: f plus_to_space_def)
    show ?thesis
      by (simp add: p hex_value_upper [OF d] hex_value_upper [OF m] rebuilt)
  qed
qed

lemma form_decode_encode: "form_decode (form_encode s) = s"
proof -
  have "percent_decode (map plus_to_space (form_encode s)) = s"
    by (induction s) (simp_all add: form_encode_def form_byte_decode)
  then show ?thesis
    by (simp add: form_decode_def)
qed

lemma form_byte_plain: "CHR ''&'' \<notin> set (form_byte c) \<and> CHR ''='' \<notin> set (form_byte c)"
proof -
  have "(of_char c :: nat) div 16 < 16"
    by (rule less_mult_imp_div_less) simp
  moreover have "(of_char c :: nat) mod 16 < 16"
    by simp
  ultimately have "(of_char c :: nat) div 16 < 16" and "(of_char c :: nat) mod 16 < 16"
    by blast+
  from hex_upper_plain [OF this(1)] hex_upper_plain [OF this(2)] show ?thesis
    by (auto simp: form_byte_def percent_byte_def is_alnum_def Let_def)
qed

lemma form_encode_plain:
  "CHR ''&'' \<notin> set (form_encode s)" "CHR ''='' \<notin> set (form_encode s)"
  using form_byte_plain by (auto simp: form_encode_def)

lemma split_on_nonempty: "split_on c s \<noteq> []"
  by (induction s) (auto split: list.splits)

lemma split_on_absent: "c \<notin> set a \<Longrightarrow> split_on c a = [a]"
  by (induction a) auto

lemma split_on_append: "c \<notin> set a \<Longrightarrow> split_on c (a @ c # b) = a # split_on c b"
  by (induction a) auto

lemma takeWhile_until: "c \<notin> set a \<Longrightarrow> takeWhile (\<lambda>x. x \<noteq> c) (a @ c # b) = a"
  by (induction a) auto

lemma dropWhile_until: "c \<notin> set a \<Longrightarrow> dropWhile (\<lambda>x. x \<noteq> c) (a @ c # b) = c # b"
  by (induction a) auto

lemma parse_pair_encoded:
  "parse_pair (form_encode k @ CHR 0x3D # form_encode v) = (k, v)"
  using form_encode_plain(2) [of k]
  by (simp add: parse_pair_def takeWhile_until dropWhile_until form_decode_encode)

lemma parse_query_two:
  "parse_query (params_toString [(k1, v1), (k2, v2)]) = [(k1, v1), (k2, v2)]"
proof -
  let ?a = "form_encode k1 @ ''='' @ form_encode v1"
  let ?b = "form_encode k2 @ ''='' @ form_encode v2"
  have a: "CHR ''&'' \<notin> set ?a" and b: "CHR ''&'' \<notin> set ?b"
    using form_encode_plain(1) by simp_all
  have "split_on CHR ''&'' (?a @ CHR ''&'' # ?b) = [?a, ?b]"
    using split_on_append [OF a, of ?b] split_on_absent [OF b] by simp
  then have "parse_query (?a @ CHR ''&'' # ?b) = [parse_pair ?a, parse_pair ?b]"
    by (simp add: parse_query_def)
  then show ?thesis
    by (simp add: params_toString_def parse_pair_encoded)
qed

subsection \<open>The calendar endpoint\<close>

lemma params_two:
  "params_toString [(''start'', s), (''end'', e)]
     = ''start='' @ form_encode s @ ''&end='' @ form_encode e"
  by (simp add: params_toString_def form_encode_keys)

lemma calendar_endpoint_both:
  assumes "start \<noteq> []" and "end' \<noteq> []"
  shows "calendar_endpoint (Some start) (Some end')
           = ''/calendar?'' @ params_toString [(''start'', start), (''end'', end')]"
  using assms
  by (simp add: calendar_endpoint_def append_param_def params_toString_def form_encode_keys)

lemma calendar_endpoint_none: "calendar_endpoint None None = ''/calendar''"
  by (simp add: calendar_endpoint_def params_toString_def)

text \<open>
  Claim C6. Each of the three \<open>getCalendar\<close> methods, given a start and an end that are
  not empty, asks for \<^verbatim>\<open>/calendar?\<close> followed by the serialisation of the two parameters
  \<^verbatim>\<open>start\<close> and \<^verbatim>\<open>end\<close>, in this order: \<^verbatim>\<open>start=\<close>, the encoded start, \<^verbatim>\<open>&end=\<close>, the
  encoded end. Read back, the query is exactly these two names with the two values the
  caller gave; a date (digits and hyphens) is its own encoding. Given neither, the
  method asks for \<^verbatim>\<open>/calendar\<close> with no query string.
\<close>

theorem calendar_query:
  assumes "start \<noteq> []" and "end' \<noteq> []"
  shows "api_call (getCalendar (Some start) (Some end'))
           = (''/calendar?'' @ params_toString [(''start'', start), (''end'', end')], no_options)
       \<and> api_call (Lidarr_getCalendar (Some start) (Some end'))
           = (''/calendar?'' @ params_toString [(''start'', start), (''end'', end')], no_options)
       \<and> api_call (Readarr_getCalendar (Some start) (Some end'))
           = (''/calendar?'' @ params_toString [(''start'', start), (''end'', end')], no_options)
       \<and> params_toString [(''start'', start), (''end'', end')]
           = ''start='' @ form_encode start @ ''&end='' @ form_encode end'
       \<and> parse_query (params_toString [(''start'', start), (''end'', end')])
           = [(''start'', start), (''end'', end')]
       \<and> ((\<forall>c \<in> set start. is_digit c \<or> c = CHR ''-'') \<longrightarrow> form_encode start = start)
       \<and> ((\<forall>c \<in> set end'. is_digit c \<or> c = CHR ''-'') \<longrightarrow> form_encode end' = end')
       \<and> api_call (getCalendar None None) = (''/calendar'', no_options)
       \<and> api_call (Lidarr_getCalendar None None) = (''/calendar'', no_options)
       \<and> api_call (Readarr_getCalendar None None) = (''/calendar'', no_options)"
proof -
  have d: "(\<forall>c \<in> set x. is_digit c \<or> c = CHR ''-'') \<longrightarrow> form_encode x = x" for x
    by (auto intro!: form_encode_unreserved dest: is_digit_alnum)
  note e = calendar_endpoint_both [OF assms]
  have "api_call (getCalendar (Some start) (Some end'))
           = (''/calendar?'' @ params_toString [(''start'', start), (''end'', end')], no_options)"
    and "api_call (Lidarr_getCalendar (Some start) (Some end'))
           = (''/calendar?'' @ params_toString [(''start'', start), (''end'', end')], no_options)"
    and "api_call (Readarr_getCalendar (Some start) (Some end'))
           = (''/calendar?'' @ params_toString [(''start'', start), (''end'', end')], no_options)"
    by (simp_all only: api_call.simps e)
  moreover have "api_call (getCalendar None None) = (''/calendar'', no_options)"
    and "api_call (Lidarr_getCalendar None None) = (''/calendar'', no_options)"
    and "api_call (Readarr_getCalendar None None) = (''/calendar'', no_options)"
    by (simp_all only: api_call.simps calendar_endpoint_none)
  ultimately show ?thesis
    using d [of start] d [of end'] params_two [of start end']
      parse_query_two [of "''start''" start "''end''" end']
    by (intro conjI)
qed

text \<open>The dates of the specification.\<close>

theorem calendar_query_witness:
  "fst (api_call (getCalendar (Some ''2025-01-01'') (Some ''2025-01-08'')))
     = ''/calendar?start=2025-01-01&end=2025-01-08''
   \<and> fst (api_call (Lidarr_getCalendar (Some ''2025-01-01'') (Some ''2025-01-08'')))
     = ''/calendar?start=2025-01-01&end=2025-01-08''
   \<and> fst (api_call (Readarr_getCalendar (Some ''2025-01-01'') (Some ''2025-01-08'')))
     = ''/calendar?start=2025-01-01&end=2025-01-08''
   \<and> parse_query ''start=2025-01-01&end=2025-01-08''
     = [(''start'', ''2025-01-01''), (''end'', ''2025-01-08'')]
   \<and> fst (api_call (getCalendar None None)) = ''/calendar''"
proof -
  have s: "''2025-01-01'' \<noteq> []" and e: "''2025-01-08'' \<noteq> []"
    by simp_all
  have ds: "\<forall>c \<in> set ''2025-01-01''. is_digit c \<or> c = CHR ''-''"
    and de: "\<forall>c \<in> set ''2025-01-08''. is_digit c \<or> c = CHR ''-''"
    by (simp_all add: is_digit_def)
  note q = calendar_query [OF s e]
  from q ds have fs: "form_encode ''2025-01-01'' = ''2025-01-01''"
    by blast
  from q de have fe: "form_encode ''2025-01-08'' = ''2025-01-08''"
    by blast
  from q have p: "params_toString [(''start'', ''2025-01-01''), (''end'', ''2025-01-08'')]
      = ''start=2025-01-01&end=2025-01-08''"
    by (simp only: fs fe) simp
  from q have "parse_query (params_toString [(''start'', ''2025-01-01''), (''end'', ''2025-01-08'')])
      = [(''start'', ''2025-01-01''), (''end'', ''2025-01-08'')]"
    by (elim conjE)
  then have r: "parse_query ''start=2025-01-01&end=2025-01-08''
      = [(''start'', ''2025-01-01''), (''end'', ''2025-01-08'')]"
    by (simp only: p)
  from q have "fst (api_call (getCalendar (Some ''2025-01-01'') (Some ''2025-01-08'')))
        = ''/calendar?'' @ params_toString [(''start'', ''2025-01-01''), (''end'', ''2025-01-08'')]"
    and "fst (api_call (Lidarr_getCalendar (Some ''2025-01-01'') (Some ''2025-01-08'')))
        = ''/calendar?'' @ params_toString [(''start'', ''2025-01-01''), (''end'', ''2025-01-08'')]"
    and "fst (api_call (Readarr_getCalendar (Some ''2025-01-01'') (Some ''2025-01-08'')))
        = ''/calendar?'' @ params_toString [(''start'', ''2025-01-01''), (''end'', ''2025-01-08'')]"
    and "fst (api_call (getCalendar None None)) = ''/calendar''"
    by simp_all
  with r show ?thesis
    by (simp only: p) simp
qed

section \<open>Search commands\<close>

text \<open>
  Claim C7. The five methods that start a search from one identifier post to
  \<^verbatim>\<open>/command\<close> a JSON object with two members: \<^verbatim>\<open>name\<close>, the command of the entity, and the
  identifier, as a number under \<^verbatim>\<open>seriesId\<close>, \<^verbatim>\<open>artistId\<close> or \<^verbatim>\<open>authorId\<close>, or as a
  one-element array under \<^verbatim>\<open>movieIds\<close> or \<^verbatim>\<open>albumIds\<close>. What a method returns is what
  \<open>request\<close> returns: when the remote answers with a status from 200 to 299, the parsed
  body of the answer, untouched. One request is made; nothing waits for the command.
\<close>

theorem trigger_search_commands:
  "api_call (searchMissing n) =
     (''/command'', \<lparr>http_method = Some ''POST'',
        body = Some (''{\"name\":\"SeriesSearch\",\"seriesId\":'' @ string_of_int n @ ''}''),
        headers = None\<rparr>)
   \<and> api_call (searchMovie n) =
     (''/command'', \<lparr>http_method = Some ''POST'',
        body = Some (''{\"name\":\"MoviesSearch\",\"movieIds\":['' @ string_of_int n @ '']}''),
        headers = None\<rparr>)
   \<and> api_call (searchMissingAlbums n) =
     (''/command'', \<lparr>http_method = Some ''POST'',
        body = Some (''{\"name\":\"ArtistSearch\",\"artistId\":'' @ string_of_int n @ ''}''),
        headers = None\<rparr>)
   \<and> api_call (searchAlbum n) =
     (''/command'', \<lparr>http_method = Some ''POST'',
        body = Some (''{\"name\":\"AlbumSearch\",\"albumIds\":['' @ string_of_int n @ '']}''),
        headers = None\<rparr>)
   \<and> api_call (searchMissingBooks n) =
     (''/command'', \<lparr>http_method = Some ''POST'',
        body = Some (''{\"name\":\"AuthorSearch\",\"authorId\":'' @ string_of_int n @ ''}''),
        headers = None\<rparr>)
   \<and> (\<forall>r t. fst (fetch rt (request_args c (fst (api_call op)) (snd (api_call op))) (remote s))
              = Inr r
          \<and> ok r \<and> body_read r = Inr t
        \<longrightarrow> fst (perform rt c op s) = JSON_parse rt t)
   \<and> calls (snd (perform rt c op s))
       = calls s @ [request_args c (fst (api_call op)) (snd (api_call op))]"
  by (simp add: post_def quote_examples perform_result request_result response_json_def
      perform_calls)

text \<open>Series 5 is searched for; the remote answers 201 with the command 42.\<close>

theorem trigger_search_commands_witness:
  "fst (perform (replying (Inr command_response)) (new_SonarrClient example_config)
          (searchMissing 5) idle)
     = Inr (JObj [(''id'', JNum 42)])
   \<and> map (\<lambda>a. (fetch_url a, http_method (fetch_init a), body (fetch_init a)))
       (calls (snd (perform (replying (Inr command_response)) (new_SonarrClient example_config)
          (searchMissing 5) idle)))
     = [(''http://localhost:8989/api/v3/command'', Some ''POST'',
         Some ''{\"name\":\"SeriesSearch\",\"seriesId\":5}'')]"
proof -
  have five: "string_of_int 5 = ''5''"
    by code_simp
  have "fst (fetch (replying (Inr command_response))
          (request_args (new_SonarrClient example_config) (fst (api_call (searchMissing 5)))
             (snd (api_call (searchMissing 5)))) (remote idle)) = Inr command_response"
    and "ok command_response" and "body_read command_response = Inr ''{\"id\":42}''"
    by (simp_all add: replying_fetch ok_def command_response_def)
  with trigger_search_commands [where rt = "replying (Inr command_response)"
      and c = "new_SonarrClient example_config" and op = "searchMissing 5" and s = idle
      and n = 5]
  show ?thesis
    by (simp add: replying_def parse_examples five idle_def request_args_def request_url_def
        new_SonarrClient_def new_ArrClient_def example_config_def strip_trailing_slash_def)
qed

section \<open>Repeated calls\<close>

text \<open>
  Claim C8. A method run twice in a row on the same client, against a remote that gives
  the second request the outcome it gave the first, returns the same result twice. Both
  runs call \<^verbatim>\<open>fetch\<close>, with the same arguments: nothing is kept from the first run. This
  holds for every method, the list and get methods among them.
\<close>

theorem repeated_call_same_result:
  assumes "fst (fetch rt (request_args c (fst (api_call op)) (snd (api_call op)))
                  (remote (snd (perform rt c op s))))
         = fst (fetch rt (request_args c (fst (api_call op)) (snd (api_call op))) (remote s))"
  shows "fst (perform rt c op (snd (perform rt c op s))) = fst (perform rt c op s)
       \<and> calls (snd (perform rt c op (snd (perform rt c op s))))
           = calls s @ [request_args c (fst (api_call op)) (snd (api_call op)),
                        request_args c (fst (api_call op)) (snd (api_call op))]"
  using assms by (simp add: perform_result request_result perform_calls)

theorem repeated_call_same_result_witness:
  "fst (perform (replying (Inr profiles_response)) (new_SonarrClient example_config)
          getQualityProfiles
          (snd (perform (replying (Inr profiles_response)) (new_SonarrClient example_config)
             getQualityProfiles idle)))
     = fst (perform (replying (Inr profiles_response)) (new_SonarrClient example_config)
          getQualityProfiles idle)
   \<and> map fetch_url (calls (snd (perform (replying (Inr profiles_response))
          (new_SonarrClient example_config) getQualityProfiles
          (snd (perform (replying (Inr profiles_response)) (new_SonarrClient example_config)
             getQualityProfiles idle)))))
     = [''http://localhost:8989/api/v3/qualityprofile'',
        ''http://localhost:8989/api/v3/qualityprofile'']"
proof -
  have "fst (fetch (replying (Inr profiles_response))
          (request_args (new_SonarrClient example_config) (fst (api_call getQualityProfiles))
             (snd (api_call getQualityProfiles)))
          (remote (snd (perform (replying (Inr profiles_response))
             (new_SonarrClient example_config) getQualityProfiles idle))))
      = fst (fetch (replying (Inr profiles_response))
          (request_args (new_SonarrClient example_config) (fst (api_call getQualityProfiles))
             (snd (api_call getQualityProfiles))) (remote idle))"
    by (simp add: replying_fetch)
  from repeated_call_same_result [OF this] show ?thesis
    by (simp add: idle_def request_args_def request_url_def new_SonarrClient_def
        new_ArrClient_def example_config_def strip_trailing_slash_def)
qed

section \<open>Add operations\<close>

text \<open>
  Claim C10. Each add method posts an object built from the caller's: \<^verbatim>\<open>addOptions\<close> is
  the object with the one search flag of the family set to true, whatever the caller
  gave under that name; \<^verbatim>\<open>monitored\<close> is the caller's value, or true when the caller's is
  \<^verbatim>\<open>undefined\<close> or \<^verbatim>\<open>null\<close>, so true when the caller has no such property. Every
  other property of a caller's object (an object has no key twice) is passed on as it is;
  \<open>addSeries\<close> also sets \<^verbatim>\<open>seasonFolder\<close>.
\<close>

theorem add_operations_augment_payload:
  "(\<exists>obj. api_call (addSeries x) = (''/series'', post (JSON_stringify (JObj obj)))
        \<and> map_of obj ''addOptions'' = Some (JObj [(''searchForMissingEpisodes'', JBool True)])
        \<and> map_of obj ''monitored'' = Some (nullish (get_prop x ''monitored'') (JBool True))
        \<and> (''monitored'' \<notin> fst ` set x \<longrightarrow> map_of obj ''monitored'' = Some (JBool True))
        \<and> (distinct (map fst x) \<longrightarrow>
             (\<forall>k. k \<notin> {''monitored'', ''seasonFolder'', ''addOptions''}
                \<longrightarrow> map_of obj k = map_of x k)))
   \<and> (\<exists>obj. api_call (addMovie x) = (''/movie'', post (JSON_stringify (JObj obj)))
        \<and> map_of obj ''addOptions'' = Some (JObj [(''searchForMovie'', JBool True)])
        \<and> map_of obj ''monitored'' = Some (nullish (get_prop x ''monitored'') (JBool True))
        \<and> (''monitored'' \<notin> fst ` set x \<longrightarrow> map_of obj ''monitored'' = Some (JBool True))
        \<and> (distinct (map fst x) \<longrightarrow>
             (\<forall>k. k \<notin> {''monitored'', ''addOptions''} \<longrightarrow> map_of obj k = map_of x k)))
   \<and> (\<exists>obj. api_call (addArtist x) = (''/artist'', post (JSON_stringify (JObj obj)))
        \<and> map_of obj ''addOptions'' = Some (JObj [(''searchForMissingAlbums'', JBool True)])
        \<and> map_of obj ''monitored'' = Some (nullish (get_prop x ''monitored'') (JBool True))
        \<and> (''monitored'' \<notin> fst ` set x \<longrightarrow> map_of obj ''monitored'' = Some (JBool True))
        \<and> (distinct (map fst x) \<longrightarrow>
             (\<forall>k. k \<notin> {''monitored'', ''addOptions''} \<longrightarrow> map_of obj k = map_of x k)))
   \<and> (\<exists>obj. api_call (addAuthor x) = (''/author'', post (JSON_stringify (JObj obj)))
        \<and> map_of obj ''addOptions'' = Some (JObj [(''searchForMissingBooks'', JBool True)])
        \<and> map_of obj ''monitored'' = Some (nullish (get_prop x ''monitored'') (JBool True))
        \<and> (''monitored'' \<notin> fst ` set x \<longrightarrow> map_of obj ''monitored'' = Some (JBool True))
        \<and> (distinct (map fst x) \<longrightarrow>
             (\<forall>k. k \<notin> {''monitored'', ''addOptions''} \<longrightarrow> map_of obj k = map_of x k)))"
  (is "?S \<and> ?M \<and> ?A \<and> ?B")
proof -
  have u: "''monitored'' \<notin> fst ` set x
             \<longrightarrow> nullish (get_prop x ''monitored'') (JBool True) = JBool True"
    by (simp add: get_prop_absent nullish_undefined)
  have S: ?S
  proof -
    obtain obj where o: "object_literal x
        [(''monitored'', nullish (get_prop x ''monitored'') (JBool True)),
         (''seasonFolder'', nullish (get_prop x ''seasonFolder'') (JBool True)),
         (''addOptions'', JObj [(''searchForMissingEpisodes'', JBool True)])] = JObj obj"
      and m: "map_of obj = map_of (rev x) ++ map_of (rev
        [(''monitored'', nullish (get_prop x ''monitored'') (JBool True)),
         (''seasonFolder'', nullish (get_prop x ''seasonFolder'') (JBool True)),
         (''addOptions'', JObj [(''searchForMissingEpisodes'', JBool True)])])"
      using object_literal_lookup by blast
    show ?thesis
      using u by (intro exI [of _ obj]) (simp add: o m map_add_def map_of_rev_distinct)
  qed
  have M: ?M
  proof -
    obtain obj where o: "object_literal x
        [(''monitored'', nullish (get_prop x ''monitored'') (JBool True)),
         (''addOptions'', JObj [(''searchForMovie'', JBool True)])] = JObj obj"
      and m: "map_of obj = map_of (rev x) ++ map_of (rev
        [(''monitored'', nullish (get_prop x ''monitored'') (JBool True)),
         (''addOptions'', JObj [(''searchForMovie'', JBool True)])])"
      using object_literal_lookup by blast
    show ?thesis
      using u by (intro exI [of _ obj]) (simp add: o m map_add_def map_of_rev_distinct)
  qed
  have A: ?A
  proof -
    obtain obj where o: "object_literal x
        [(''monitored'', nullish (get_prop x ''monitored'') (JBool True)),
         (''addOptions'', JObj [(''searchForMissingAlbums'', JBool True)])] = JObj obj"
      and m: "map_of obj = map_of (rev x) ++ map_of (rev
        [(''monitored'', nullish (get_prop x ''monitored'') (JBool True)),
         (''addOptions'', JObj [(''searchForMissingAlbums'', JBool True)])])"
      using object_literal_lookup by blast
    show ?thesis
      using u by (intro exI [of _ obj]) (simp add: o m map_add_def map_of_rev_distinct)
  qed
  have B: ?B
  proof -
    obtain obj where o: "object_literal x
        [(''monitored'', nullish (get_prop x ''monitored'') (JBool True)),
         (''addOptions'', JObj [(''searchForMissingBooks'', JBool True)])] = JObj obj"
      and m: "map_of obj = map_of (rev x) ++ map_of (rev
        [(''monitored'', nullish (get_prop x ''monitored'') (JBool True)),
         (''addOptions'', JObj [(''searchForMissingBooks'', JBool True)])])"
      using object_literal_lookup by blast
    show ?thesis
      using u by (intro exI [of _ obj]) (simp add: o m map_add_def map_of_rev_distinct)
  qed
  from S M A B show ?thesis
    by (intro conjI)
qed

text \<open>
  A caller adds a movie, gives no \<^verbatim>\<open>monitored\<close> and asks for no search: the body that is
  sent says monitored, and search.
\<close>

theorem add_operations_augment_payload_witness:
  "(\<exists>obj. api_call (addMovie
        [(''tmdbId'', JNum 603), (''addOptions'', JObj [(''searchForMovie'', JBool False)])])
        = (''/movie'', post (JSON_stringify (JObj obj)))
      \<and> map_of obj ''addOptions'' = Some (JObj [(''searchForMovie'', JBool True)])
      \<and> map_of obj ''monitored'' = Some (JBool True)
      \<and> map_of obj ''tmdbId'' = Some (JNum 603))
   \<and> body (snd (api_call (addMovie
        [(''tmdbId'', JNum 603), (''addOptions'', JObj [(''searchForMovie'', JBool False)])])))
       = Some ''{\"tmdbId\":603,\"addOptions\":{\"searchForMovie\":true},\"monitored\":true}''"
proof -
  let ?x = "[(''tmdbId'', JNum 603), (''addOptions'', JObj [(''searchForMovie'', JBool False)])]"
  have b: "body (snd (api_call (addMovie ?x)))
       = Some ''{\"tmdbId\":603,\"addOptions\":{\"searchForMovie\":true},\"monitored\":true}''"
    by code_simp
  have n: "''monitored'' \<notin> fst ` set ?x" and d: "distinct (map fst ?x)"
    by simp_all
  from add_operations_augment_payload [where x = ?x, THEN conjunct2, THEN conjunct1]
  obtain obj where 1: "api_call (addMovie ?x) = (''/movie'', post (JSON_stringify (JObj obj)))"
    and 2: "map_of obj ''addOptions'' = Some (JObj [(''searchForMovie'', JBool True)])"
    and 3: "''monitored'' \<notin> fst ` set ?x \<longrightarrow> map_of obj ''monitored'' = Some (JBool True)"
    and 4: "distinct (map fst ?x) \<longrightarrow>
             (\<forall>k. k \<notin> {''monitored'', ''addOptions''} \<longrightarrow> map_of obj k = map_of ?x k)"
    by (elim exE conjE) (rule that; assumption)
  from 3 n have 5: "map_of obj ''monitored'' = Some (JBool True)"
    by (rule mp)
  from 4 d have "\<forall>k. k \<notin> {''monitored'', ''addOptions''} \<longrightarrow> map_of obj k = map_of ?x k"
    by (rule mp)
  then have "''tmdbId'' \<notin> {''monitored'', ''addOptions''} \<longrightarrow> map_of obj ''tmdbId'' = map_of ?x ''tmdbId''"
    by (rule spec)
  then have 6: "map_of obj ''tmdbId'' = Some (JNum 603)"
    by simp
  from 1 2 5 6 b show ?thesis
    by (intro conjI exI [of _ obj])
qed

end
